theory Spec2Isabelle
  imports Complex_Main "HOL-Library.AList"
begin

section \<open>The mind map application of script.js\<close>

text \<open>
  The class \<open>MindMapApp\<close> of \<open>src/script.js\<close> keeps its nodes in a JavaScript
  \<open>Map\<close> from node ids to node objects. The objects are shared: the map, the
  arrays built from it and the snapshots of the undo history all hold references
  to the same objects. The model therefore has an explicit store of objects
  (\<open>heap\<close>, from references to node records) and represents a \<open>Map\<close> by the
  list of its entries in insertion order, each entry an id and a reference.

  JavaScript numbers are modelled by \<open>real\<close> (coordinates, scale), \<open>int\<close>
  (levels) and \<open>nat\<close> (the id counter). Calls that only touch the DOM, the
  console or localStorage writes are left out; a node's DOM element exists
  exactly when its id is a key of \<open>nodes\<close> (every path that adds or removes an
  entry adds or removes the element).
\<close>

subsection \<open>Data\<close>

type_synonym nid = string
type_synonym ref = nat

record node =
  node_id :: nid
  node_text :: string
  node_level :: int
  node_parent :: "nid option"
  node_children :: "nid list"
  node_x :: real
  node_y :: real
  node_color :: "string option"

record viewport =
  vp_x :: real
  vp_y :: real
  vp_scale :: real

text \<open>An entry of \<open>this.history\<close> (the timestamp is never read and left out).\<close>

record history_entry =
  h_nodes :: "(nid \<times> ref) list"
  h_nodeCounter :: nat
  h_selectedNode :: "nid option"

record app =
  heap :: "ref \<Rightarrow> node"
  nextRef :: ref
  nodes :: "(nid \<times> ref) list"
  selectedNode :: "nid option"
  editingNode :: "nid option"
  nodeCounter :: nat
  history :: "history_entry list"
  viewport :: viewport

text \<open>Truthiness of an id or \<open>null\<close>: \<open>null\<close> and the empty string are falsy.\<close>

fun truthy :: "nid option \<Rightarrow> bool" where
  "truthy None = False"
| "truthy (Some i) = (i \<noteq> [])"

text \<open>\<open>this.nodes.get(id)\<close>, also for an id that may be \<open>null\<close>.\<close>

definition nodesGet :: "app \<Rightarrow> nid \<Rightarrow> ref option" where
  "nodesGet s k = map_of (nodes s) k"

fun nodesGetOpt :: "app \<Rightarrow> nid option \<Rightarrow> ref option" where
  "nodesGetOpt s None = None"
| "nodesGetOpt s (Some k) = nodesGet s k"

text \<open>Assignment to the fields of the object behind a reference.\<close>

definition upd :: "ref \<Rightarrow> (node \<Rightarrow> node) \<Rightarrow> app \<Rightarrow> app" where
  "upd r f s = s\<lparr>heap := (heap s)(r := f (heap s r))\<rparr>"

text \<open>A new object literal: the next free reference holds it.\<close>

definition newObject :: "node \<Rightarrow> app \<Rightarrow> ref \<times> app" where
  "newObject nd s = (nextRef s, s\<lparr>heap := (heap s)(nextRef s := nd), nextRef := Suc (nextRef s)\<rparr>)"

text \<open>\<open>ids.map(id => this.nodes.get(id)).filter(Boolean)\<close>\<close>

definition presentNodes :: "app \<Rightarrow> nid list \<Rightarrow> ref list" where
  "presentNodes s ids = List.map_filter (nodesGet s) ids"

text \<open>\<open>for\<close>-each over a list with a body that may fail to return.\<close>

fun forEach :: "('a \<Rightarrow> 's \<Rightarrow> 's option) \<Rightarrow> 'a list \<Rightarrow> 's \<Rightarrow> 's option" where
  "forEach f [] s = Some s"
| "forEach f (a # as) s = (case f a s of None \<Rightarrow> None | Some s' \<Rightarrow> forEach f as s')"

subsection \<open>Ids\<close>

definition digit :: "nat \<Rightarrow> char" where
  "digit d = char_of (48 + d)"

fun decimal :: "nat \<Rightarrow> string" where
  "decimal n = (if n < 10 then [digit n] else decimal (n div 10) @ [digit (n mod 10)])"

declare decimal.simps [simp del]

text \<open>\<open>generateId\<close>: the template string \<open>node-${++this.nodeCounter}\<close>.\<close>

definition generateId :: "app \<Rightarrow> nid \<times> app" where
  "generateId s = (let c = nodeCounter s + 1 in (''node-'' @ decimal c, s\<lparr>nodeCounter := c\<rparr>))"

subsection \<open>Selection and history\<close>

definition selectNode :: "nid option \<Rightarrow> app \<Rightarrow> app" where
  "selectNode nodeId s = s\<lparr>selectedNode := nodeId\<rparr>"

definition maxHistorySize :: nat where
  "maxHistorySize = 50"

text \<open>\<open>new Map(this.nodes)\<close> copies the entries, not the objects they refer to.\<close>

definition currentState :: "app \<Rightarrow> history_entry" where
  "currentState s = \<lparr>h_nodes = nodes s, h_nodeCounter = nodeCounter s, h_selectedNode = selectedNode s\<rparr>"

text \<open>\<open>push\<close>, then \<open>shift\<close> when the array has grown past the limit.\<close>

definition pushHistory :: "history_entry \<Rightarrow> history_entry list \<Rightarrow> history_entry list" where
  "pushHistory e h = (let h' = h @ [e] in if length h' > maxHistorySize then tl h' else h')"

definition saveToHistory :: "app \<Rightarrow> app" where
  "saveToHistory s = s\<lparr>history := pushHistory (currentState s) (history s)\<rparr>"

subsection \<open>Creating nodes\<close>

text \<open>The placeholder text of a new node (the UTF-8 bytes of the source's literal).\<close>

definition defaultText :: string where
  "defaultText = [CHR 0xE3, CHR 0x83, CHR 0x8E, CHR 0xE3, CHR 0x83, CHR 0xBC, CHR 0xE3, CHR 0x83, CHR 0x89]"

definition rootText :: string where
  "rootText = [CHR 0xE3, CHR 0x83, CHR 0xA1, CHR 0xE3, CHR 0x82, CHR 0xA4, CHR 0xE3, CHR 0x83, CHR 0xB3,
     CHR 0xE3, CHR 0x82, CHR 0xA2, CHR 0xE3, CHR 0x82, CHR 0xA4, CHR 0xE3, CHR 0x83, CHR 0x87, CHR 0xE3, CHR 0x82, CHR 0xA2]"

definition createRootNode :: "app \<Rightarrow> app" where
  "createRootNode s =
     (let (i, s1) = generateId s;
          rootData = \<lparr>node_id = i, node_text = rootText, node_level = 0, node_parent = None,
                      node_children = [], node_x = 0, node_y = 0, node_color = None\<rparr>;
          (r, s2) = newObject rootData s1;
          s3 = s2\<lparr>nodes := AList.update i r (nodes s2)\<rparr>
      in selectNode (Some i) s3)"

text \<open>
  \<open>addSiblingNode\<close> and \<open>addChildNode\<close> up to their timers: the layout update
  they schedule runs 50 ms later as an event of its own (\<open>updateLayout\<close> below),
  the editing of the new node 150 ms later.
\<close>

definition addSiblingNode :: "app \<Rightarrow> app" where
  "addSiblingNode s =
     (case nodesGetOpt s (selectedNode s) of None \<Rightarrow> s
      | Some currentNode \<Rightarrow>
          if node_level (heap s currentNode) = 0 then s
          else (case nodesGetOpt s (node_parent (heap s currentNode)) of None \<Rightarrow> s
            | Some parentNode \<Rightarrow>
               (let s1 = saveToHistory s;
                    (i, s2) = generateId s1;
                    newNodeData = \<lparr>node_id = i, node_text = defaultText,
                       node_level = node_level (heap s2 currentNode),
                       node_parent = Some (node_id (heap s2 parentNode)), node_children = [],
                       node_x = node_x (heap s2 currentNode), node_y = node_y (heap s2 currentNode),
                       node_color = Some ''white''\<rparr>;
                    (r, s3) = newObject newNodeData s2;
                    s4 = s3\<lparr>nodes := AList.update i r (nodes s3)\<rparr>;
                    s5 = upd parentNode (\<lambda>nd. nd\<lparr>node_children := node_children nd @ [i]\<rparr>) s4
                in selectNode (Some i) s5)))"

definition addChildNode :: "app \<Rightarrow> app" where
  "addChildNode s =
     (case nodesGetOpt s (selectedNode s) of None \<Rightarrow> s
      | Some parentNode \<Rightarrow>
         (let s1 = saveToHistory s;
              (i, s2) = generateId s1;
              newNodeData = \<lparr>node_id = i, node_text = defaultText,
                 node_level = node_level (heap s2 parentNode) + 1,
                 node_parent = Some (node_id (heap s2 parentNode)), node_children = [],
                 node_x = node_x (heap s2 parentNode), node_y = node_y (heap s2 parentNode),
                 node_color = Some ''white''\<rparr>;
              (r, s3) = newObject newNodeData s2;
              s4 = s3\<lparr>nodes := AList.update i r (nodes s3)\<rparr>;
              s5 = upd parentNode (\<lambda>nd. nd\<lparr>node_children := node_children nd @ [i]\<rparr>) s4
          in selectNode (Some i) s5))"

subsection \<open>Deleting a node\<close>


subsection \<open>Layout, phase A: placing children\<close>

text \<open>The children at the even and at the odd positions of the array.\<close>

definition rightNodes :: "'a list \<Rightarrow> 'a list" where
  "rightNodes children = map snd (filter (\<lambda>(index, child). index mod 2 = 0) (enumerate 0 children))"

definition leftNodes :: "'a list \<Rightarrow> 'a list" where
  "leftNodes children = map snd (filter (\<lambda>(index, child). index mod 2 \<noteq> 0) (enumerate 0 children))"

text \<open>One of the two \<open>forEach\<close> loops of \<open>layoutRootChildren\<close>.\<close>

definition placeSide :: "real \<Rightarrow> real \<Rightarrow> ref list \<Rightarrow> app \<Rightarrow> app" where
  "placeSide cx verticalSpacing sideNodes s =
     fold (\<lambda>(index, child). upd child (\<lambda>nd. nd\<lparr>node_x := cx,
              node_y := (real index - (real (length sideNodes) - 1) / 2) * verticalSpacing\<rparr>))
          (enumerate 0 sideNodes) s"

definition layoutRootChildren :: "ref \<Rightarrow> ref list \<Rightarrow> app \<Rightarrow> app" where
  "layoutRootChildren rootNode children s =
     (let baseDistance = 320;
          minVerticalSpacing = 120;
          nodeHeight = 60;
          verticalSpacing = max minVerticalSpacing (nodeHeight + 40)
      in placeSide (- baseDistance) verticalSpacing (leftNodes children)
           (placeSide baseDistance verticalSpacing (rightNodes children) s))"

text \<open>
  The siblings of a node: the present children of its parent other than the
  node itself, compared by their \<open>id\<close> fields.
\<close>

definition siblingsOf :: "app \<Rightarrow> ref \<Rightarrow> ref \<Rightarrow> ref list" where
  "siblingsOf s grandParent parentNode =
     filter (\<lambda>n. node_id (heap s n) \<noteq> node_id (heap s parentNode))
            (presentNodes s (node_children (heap s grandParent)))"

definition calculateRequiredSpace :: "app \<Rightarrow> ref \<Rightarrow> nat \<Rightarrow> real" where
  "calculateRequiredSpace s parentNode childrenCount =
     (if \<not> truthy (node_parent (heap s parentNode)) then 200
      else (case nodesGetOpt s (node_parent (heap s parentNode)) of None \<Rightarrow> 200
        | Some grandParent \<Rightarrow>
           (let maxSiblingChildrenCount =
                  fold (\<lambda>sibling m. if length (node_children (heap s sibling)) > m
                                     then length (node_children (heap s sibling)) else m)
                       (siblingsOf s grandParent parentNode) 0;
                baseSpacing = 120;
                additionalSpacing = real (max maxSiblingChildrenCount childrenCount) * 20
            in baseSpacing + additionalSpacing)))"

text \<open>
  \<open>Math.max(...ys)\<close> and \<open>Math.min(...ys)\<close> of a non-empty array. Both callers
  are reached with non-empty arrays only.
\<close>

fun maxOf :: "real list \<Rightarrow> real" where
  "maxOf [] = 0"
| "maxOf (v # vs) = fold max vs v"

fun minOf :: "real list \<Rightarrow> real" where
  "minOf [] = 0"
| "minOf (v # vs) = fold min vs v"

definition shiftY :: "real \<Rightarrow> ref list \<Rightarrow> app \<Rightarrow> app" where
  "shiftY d children s = fold (\<lambda>child. upd child (\<lambda>nd. nd\<lparr>node_y := node_y nd + d\<rparr>)) children s"

definition adjustForSiblingConflicts :: "ref \<Rightarrow> ref list \<Rightarrow> ref \<Rightarrow> ref list \<Rightarrow> app \<Rightarrow> app" where
  "adjustForSiblingConflicts parentNode children siblingNode siblingChildren s =
     (let minGap = 80;
          parentAboveSibling = node_y (heap s parentNode) < node_y (heap s siblingNode)
      in if parentAboveSibling then
           (let maxChildY = maxOf (map (\<lambda>child. node_y (heap s child)) children);
                minSiblingChildY = minOf (map (\<lambda>child. node_y (heap s child)) siblingChildren)
            in if maxChildY + minGap > minSiblingChildY
               then shiftY (- (((maxChildY + minGap) - minSiblingChildY) / 2)) children s
               else s)
         else
           (let minChildY = minOf (map (\<lambda>child. node_y (heap s child)) children);
                maxSiblingChildY = maxOf (map (\<lambda>child. node_y (heap s child)) siblingChildren)
            in if minChildY - minGap < maxSiblingChildY
               then shiftY ((maxSiblingChildY + minGap - minChildY) / 2) children s
               else s))"

definition avoidIntersections :: "ref \<Rightarrow> ref list \<Rightarrow> app \<Rightarrow> app" where
  "avoidIntersections parentNode children s =
     (if \<not> truthy (node_parent (heap s parentNode)) \<or> children = [] then s
      else (case nodesGetOpt s (node_parent (heap s parentNode)) of None \<Rightarrow> s
        | Some grandParent \<Rightarrow>
            fold (\<lambda>sibling t.
                    (let siblingChildren = presentNodes t (node_children (heap t sibling))
                     in if siblingChildren = [] then t
                        else adjustForSiblingConflicts parentNode children sibling siblingChildren t))
                 (siblingsOf s grandParent parentNode) s))"

definition layoutBranchChildrenNoIntersection :: "ref \<Rightarrow> ref list \<Rightarrow> app \<Rightarrow> app" where
  "layoutBranchChildrenNoIntersection parentNode children s =
     (let baseDistance = 280;
          minVerticalSpacing = 120;
          direction = (if truthy (node_parent (heap s parentNode))
                       then (case nodesGetOpt s (node_parent (heap s parentNode)) of None \<Rightarrow> 1
                             | Some grandParent \<Rightarrow>
                                 if node_x (heap s parentNode) > node_x (heap s grandParent) then 1 else - 1)
                       else 1);
          requiredSpace = calculateRequiredSpace s parentNode (length children);
          verticalSpacing = max minVerticalSpacing (requiredSpace / real (max (length children - 1) 1));
          totalHeight = (real (length children) - 1) * verticalSpacing;
          startY = node_y (heap s parentNode) - totalHeight / 2;
          s1 = fold (\<lambda>(index, child) t. upd child (\<lambda>nd. nd\<lparr>
                       node_x := node_x (heap t parentNode) + baseDistance * direction,
                       node_y := startY + real index * verticalSpacing\<rparr>) t)
                    (enumerate 0 children) s
      in avoidIntersections parentNode children s1)"

text \<open>
  \<open>layoutChildrenMindMeisterStyle\<close> places the children of a node and calls itself
  for each of them; the first argument bounds the depth of the calls, as for
  \<open>deleteNode\<close>.
\<close>

primrec layoutChildrenMindMeisterStyle :: "nat \<Rightarrow> ref \<Rightarrow> app \<Rightarrow> app option" where
  "layoutChildrenMindMeisterStyle 0 = (\<lambda>parentNode s. None)"
| "layoutChildrenMindMeisterStyle (Suc fuel) = (\<lambda>parentNode s.
     (let children = presentNodes s (node_children (heap s parentNode))
      in if children = [] then Some s
         else forEach (layoutChildrenMindMeisterStyle fuel) children
                (if node_level (heap s parentNode) = 0
                 then layoutRootChildren parentNode children s
                 else layoutBranchChildrenNoIntersection parentNode children s)))"

subsection \<open>Layout, phase B: resolving overlaps\<close>

record dimensions =
  dim_width :: real
  dim_height :: real
  dim_minGapX :: real
  dim_minGapY :: real

text \<open>
  \<open>getActualNodeDimensions\<close> measures the first element of class \<open>node\<close>; the
  argument is its bounding rectangle (width, height) when there is one.
\<close>

definition getActualNodeDimensions :: "(real \<times> real) option \<Rightarrow> dimensions" where
  "getActualNodeDimensions rect =
     (let (nodeWidth, nodeHeight) =
            (case rect of None \<Rightarrow> (140, 50) | Some (w, h) \<Rightarrow> (max w 140, max h 50))
      in \<lparr>dim_width = nodeWidth, dim_height = nodeHeight, dim_minGapX = 30, dim_minGapY = 25\<rparr>)"

datatype strategy = ParentChild | Siblings | DistantLevels | General

definition determineAdjustmentStrategy :: "app \<Rightarrow> ref \<Rightarrow> ref \<Rightarrow> strategy" where
  "determineAdjustmentStrategy s nodeA nodeB =
     (if node_parent (heap s nodeA) = Some (node_id (heap s nodeB))
         \<or> node_parent (heap s nodeB) = Some (node_id (heap s nodeA)) then ParentChild
      else if node_parent (heap s nodeA) = node_parent (heap s nodeB) \<and> truthy (node_parent (heap s nodeA))
      then Siblings
      else if \<bar>node_level (heap s nodeA) - node_level (heap s nodeB)\<bar> > 1 then DistantLevels
      else General)"

definition adjustParentChildOverlap :: "ref \<Rightarrow> ref \<Rightarrow> real \<Rightarrow> app \<Rightarrow> app" where
  "adjustParentChildOverlap nodeA nodeB requiredDistance s =
     (let isAParent = node_level (heap s nodeA) < node_level (heap s nodeB);
          parent = (if isAParent then nodeA else nodeB);
          child = (if isAParent then nodeB else nodeA);
          direction = (if node_y (heap s child) > node_y (heap s parent) then 1 else - 1)
      in upd child (\<lambda>nd. nd\<lparr>node_y := node_y (heap s parent) + direction * requiredDistance * 1.5\<rparr>) s)"

definition adjustSiblingOverlap :: "ref \<Rightarrow> ref \<Rightarrow> real \<Rightarrow> app \<Rightarrow> app" where
  "adjustSiblingOverlap nodeA nodeB requiredDistance s =
     (let midY = (node_y (heap s nodeA) + node_y (heap s nodeB)) / 2;
          adjustment = requiredDistance / 2
      in if node_y (heap s nodeA) < node_y (heap s nodeB)
         then upd nodeB (\<lambda>nd. nd\<lparr>node_y := midY + adjustment\<rparr>)
                (upd nodeA (\<lambda>nd. nd\<lparr>node_y := midY - adjustment\<rparr>) s)
         else upd nodeB (\<lambda>nd. nd\<lparr>node_y := midY - adjustment\<rparr>)
                (upd nodeA (\<lambda>nd. nd\<lparr>node_y := midY + adjustment\<rparr>) s))"

definition adjustDistantLevelOverlap :: "ref \<Rightarrow> ref \<Rightarrow> real \<Rightarrow> app \<Rightarrow> app" where
  "adjustDistantLevelOverlap nodeA nodeB requiredDistance s =
     (let deeperNode = (if node_level (heap s nodeA) > node_level (heap s nodeB) then nodeA else nodeB);
          direction = (if node_y (heap s deeperNode) > 0 then 1 else - 1)
      in upd deeperNode (\<lambda>nd. nd\<lparr>node_y := node_y nd + direction * requiredDistance\<rparr>) s)"

definition adjustGeneralOverlap :: "ref \<Rightarrow> ref \<Rightarrow> real \<Rightarrow> app \<Rightarrow> app" where
  "adjustGeneralOverlap nodeA nodeB requiredDistance s =
     (let currentDistance = \<bar>node_y (heap s nodeA) - node_y (heap s nodeB)\<bar>;
          adjustment = (requiredDistance - currentDistance) / 2 + 5
      in if node_y (heap s nodeA) < node_y (heap s nodeB)
         then upd nodeB (\<lambda>nd. nd\<lparr>node_y := node_y nd + adjustment\<rparr>)
                (upd nodeA (\<lambda>nd. nd\<lparr>node_y := node_y nd - adjustment\<rparr>) s)
         else upd nodeB (\<lambda>nd. nd\<lparr>node_y := node_y nd - adjustment\<rparr>)
                (upd nodeA (\<lambda>nd. nd\<lparr>node_y := node_y nd + adjustment\<rparr>) s))"

definition applyOverlapAdjustment :: "ref \<Rightarrow> ref \<Rightarrow> dimensions \<Rightarrow> strategy \<Rightarrow> app \<Rightarrow> app" where
  "applyOverlapAdjustment nodeA nodeB dims strat s =
     (let requiredDistanceY = dim_height dims + dim_minGapY dims + 10
      in case strat of
           ParentChild \<Rightarrow> adjustParentChildOverlap nodeA nodeB requiredDistanceY s
         | Siblings \<Rightarrow> adjustSiblingOverlap nodeA nodeB requiredDistanceY s
         | DistantLevels \<Rightarrow> adjustDistantLevelOverlap nodeA nodeB requiredDistanceY s
         | General \<Rightarrow> adjustGeneralOverlap nodeA nodeB requiredDistanceY s)"

text \<open>The overlap test shared by \<open>resolveNodePairOverlap\<close> and \<open>validateNoOverlaps\<close>.\<close>

definition overlapping :: "dimensions \<Rightarrow> app \<Rightarrow> ref \<Rightarrow> ref \<Rightarrow> bool" where
  "overlapping dims s nodeA nodeB =
     (let dx = \<bar>node_x (heap s nodeA) - node_x (heap s nodeB)\<bar>;
          dy = \<bar>node_y (heap s nodeA) - node_y (heap s nodeB)\<bar>;
          requiredDistanceX = dim_width dims / 2 + dim_minGapX dims;
          requiredDistanceY = dim_height dims + dim_minGapY dims
      in dx < requiredDistanceX \<and> dy < requiredDistanceY)"

definition resolveNodePairOverlap :: "dimensions \<Rightarrow> ref \<Rightarrow> ref \<Rightarrow> app \<Rightarrow> bool \<times> app" where
  "resolveNodePairOverlap dims nodeA nodeB s =
     (if overlapping dims s nodeA nodeB
      then (True, applyOverlapAdjustment nodeA nodeB dims (determineAdjustmentStrategy s nodeA nodeB) s)
      else (False, s))"

text \<open>
  One pass of the two nested \<open>for\<close> loops over the pairs \<open>i < j\<close>, carrying
  \<open>hasOverlap\<close> and the state.
\<close>

definition pairStep :: "dimensions \<Rightarrow> ref \<Rightarrow> ref \<Rightarrow> bool \<times> app \<Rightarrow> bool \<times> app" where
  "pairStep dims nodeA nodeB acc =
     (let (found, s') = resolveNodePairOverlap dims nodeA nodeB (snd acc)
      in (fst acc \<or> found, s'))"

fun pairPass :: "dimensions \<Rightarrow> ref list \<Rightarrow> bool \<times> app \<Rightarrow> bool \<times> app" where
  "pairPass dims [] acc = acc"
| "pairPass dims (nodeA # rest) acc = pairPass dims rest (fold (pairStep dims nodeA) rest acc)"

text \<open>The \<open>while\<close> loop: at most the given number of passes, left after a pass without overlap.\<close>

fun resolveLoop :: "nat \<Rightarrow> dimensions \<Rightarrow> ref list \<Rightarrow> app \<Rightarrow> app" where
  "resolveLoop 0 dims ns s = s"
| "resolveLoop (Suc k) dims ns s =
     (let (hasOverlap, s') = pairPass dims ns (False, s)
      in if \<not> hasOverlap then s' else resolveLoop k dims ns s')"

definition resolveOverlapsInLevel :: "ref list \<Rightarrow> dimensions \<Rightarrow> app \<Rightarrow> app" where
  "resolveOverlapsInLevel ns dims s = resolveLoop 15 dims ns s"

text \<open>The map \<open>nodesByLevel\<close>: levels in the order of their first node, each with its nodes.\<close>

definition nodesByLevel :: "app \<Rightarrow> (int \<times> ref list) list" where
  "nodesByLevel s =
     fold (\<lambda>n m. (let m' = (if map_of m (node_level (heap s n)) = None
                             then AList.update (node_level (heap s n)) [] m else m)
                  in AList.update (node_level (heap s n))
                       (the (map_of m' (node_level (heap s n))) @ [n]) m'))
          (map snd (nodes s)) []"

definition resolveOverlapsByLevel :: "dimensions \<Rightarrow> app \<Rightarrow> app" where
  "resolveOverlapsByLevel dims s =
     fold (\<lambda>(level, levelNodes) t. if length levelNodes > 1 then resolveOverlapsInLevel levelNodes dims t else t)
          (nodesByLevel s) s"

definition resolveGlobalOverlaps :: "dimensions \<Rightarrow> app \<Rightarrow> app" where
  "resolveGlobalOverlaps dims s = resolveLoop 20 dims (map snd (nodes s)) s"

fun overlapCount :: "dimensions \<Rightarrow> app \<Rightarrow> ref list \<Rightarrow> nat" where
  "overlapCount dims s [] = 0"
| "overlapCount dims s (nodeA # rest) =
     length (filter (overlapping dims s nodeA) rest) + overlapCount dims s rest"

definition validateNoOverlaps :: "dimensions \<Rightarrow> app \<Rightarrow> bool" where
  "validateNoOverlaps dims s = (overlapCount dims s (map snd (nodes s)) = 0)"

text \<open>The result of \<open>validateNoOverlaps\<close> is not used by its caller.\<close>

definition performComprehensiveOverlapResolution :: "(real \<times> real) option \<Rightarrow> app \<Rightarrow> app" where
  "performComprehensiveOverlapResolution rect s =
     (let actualNodeDimensions = getActualNodeDimensions rect
      in resolveGlobalOverlaps actualNodeDimensions (resolveOverlapsByLevel actualNodeDimensions s))"

definition updateLayout :: "nat \<Rightarrow> (real \<times> real) option \<Rightarrow> app \<Rightarrow> app option" where
  "updateLayout fuel rect s =
     (case find (\<lambda>n. node_level (heap s n) = 0) (map snd (nodes s)) of
        None \<Rightarrow> Some s
      | Some rootNode \<Rightarrow>
          (case layoutChildrenMindMeisterStyle fuel rootNode
                  (upd rootNode (\<lambda>nd. nd\<lparr>node_x := 0, node_y := 0\<rparr>) s) of
             None \<Rightarrow> None
           | Some s1 \<Rightarrow> Some (performComprehensiveOverlapResolution rect s1)))"

subsection \<open>Undo, colour and text\<close>

text \<open>
  \<open>undo\<close> pops the last entry and makes a new \<open>Map\<close> of its entries; the
  objects are those the entry refers to, as they are now.
\<close>

definition undo :: "nat \<Rightarrow> (real \<times> real) option \<Rightarrow> app \<Rightarrow> app option" where
  "undo fuel rect s =
     (if length (history s) = 0 then Some s
      else (let previousState = last (history s);
                s1 = s\<lparr>history := butlast (history s)\<rparr>;
                s2 = s1\<lparr>nodes := h_nodes previousState, nodeCounter := h_nodeCounter previousState,
                        selectedNode := None\<rparr>;
                s3 = (if truthy (h_selectedNode previousState)
                         \<and> nodesGetOpt s2 (h_selectedNode previousState) \<noteq> None
                      then selectNode (h_selectedNode previousState) s2 else s2)
            in updateLayout fuel rect s3))"

definition changeNodeColor :: "nid option \<Rightarrow> string \<Rightarrow> app \<Rightarrow> app" where
  "changeNodeColor nodeId color s =
     (if \<not> truthy nodeId then s
      else (let s1 = saveToHistory s
            in case nodesGetOpt s1 nodeId of None \<Rightarrow> s1
               | Some nodeData \<Rightarrow> upd nodeData (\<lambda>nd. nd\<lparr>node_color := Some color\<rparr>) s1))"





subsection \<open>Loading the saved state\<close>

text \<open>
  What \<open>localStorage.getItem\<close> and \<open>JSON.parse\<close> give: nothing stored, a text
  that does not parse to an object of the saved shape (an exception, caught), or
  the saved object with its entries, counter and viewport.
\<close>

record saved =
  sv_nodes :: "(nid \<times> node) list"
  sv_nodeCounter :: "nat option"
  sv_viewport :: "viewport option"

datatype blob = Missing | Unparseable | Parsed saved

text \<open>\<open>JSON.parse\<close> makes a new object for every entry; \<open>new Map\<close> sets them in order.\<close>

definition installNodes :: "(nid \<times> node) list \<Rightarrow> app \<Rightarrow> app" where
  "installNodes entries s =
     fold (\<lambda>(k, nd) t. (let (r, t1) = newObject nd t in t1\<lparr>nodes := AList.update k r (nodes t1)\<rparr>))
          entries (s\<lparr>nodes := []\<rparr>)"

definition loadFromDatabase :: "blob \<Rightarrow> app \<Rightarrow> bool \<times> app" where
  "loadFromDatabase savedData s =
     (case savedData of
        Missing \<Rightarrow> (False, s)
      | Unparseable \<Rightarrow> (False, s)
      | Parsed d \<Rightarrow>
          (let s1 = installNodes (sv_nodes d) s;
               s2 = s1\<lparr>nodeCounter := (case sv_nodeCounter d of None \<Rightarrow> 0 | Some c \<Rightarrow> c),
                       viewport := (case sv_viewport d of None \<Rightarrow> \<lparr>vp_x = 0, vp_y = 0, vp_scale = 1\<rparr>
                                    | Some v \<Rightarrow> v)\<rparr>;
               s3 = (case find (\<lambda>n. node_level (heap s2 n) = 0) (map snd (nodes s2)) of
                       None \<Rightarrow> s2
                     | Some rootNode \<Rightarrow> selectNode (Some (node_id (heap s2 rootNode))) s2)
           in (True, s3)))"

text \<open>The state the constructor sets up, and \<open>init\<close> up to its timer.\<close>

definition emptyNode :: node where
  "emptyNode = \<lparr>node_id = [], node_text = [], node_level = 0, node_parent = None,
     node_children = [], node_x = 0, node_y = 0, node_color = None\<rparr>"

definition constructed :: app where
  "constructed = \<lparr>heap = (\<lambda>r. emptyNode), nextRef = 0, nodes = [], selectedNode = None,
     editingNode = None, nodeCounter = 0, history = [],
     viewport = \<lparr>vp_x = 0, vp_y = 0, vp_scale = 1\<rparr>\<rparr>"

definition init :: "blob \<Rightarrow> app" where
  "init savedData =
     (let (loaded, s) = loadFromDatabase savedData constructed
      in if \<not> loaded then createRootNode s else s)"

subsection \<open>Viewport\<close>

text \<open>
  The screen position \<open>updateNodePosition\<close> computes for a model coordinate;
  \<open>half\<close> is \<open>window.innerWidth / 2\<close> or \<open>window.innerHeight / 2\<close>.
\<close>

definition screenX :: "viewport \<Rightarrow> real \<Rightarrow> real \<Rightarrow> real" where
  "screenX v half mx = (mx + vp_x v) * vp_scale v + half"

definition screenY :: "viewport \<Rightarrow> real \<Rightarrow> real \<Rightarrow> real" where
  "screenY v half my = (my + vp_y v) * vp_scale v + half"

text \<open>
  The wheel handler: \<open>px\<close> and \<open>py\<close> are the pointer position in the container
  (\<open>e.clientX - rect.left\<close>, \<open>e.clientY - rect.top\<close>), \<open>halfW\<close> and \<open>halfH\<close> half the
  window's inner width and height.
\<close>

definition wheel :: "real \<Rightarrow> real \<Rightarrow> real \<Rightarrow> real \<Rightarrow> real \<Rightarrow> viewport \<Rightarrow> viewport" where
  "wheel deltaY px py halfW halfH v =
     (let zoomFactor = 1.05;
          mouseX = px - halfW;
          mouseY = py - halfH;
          oldScale = vp_scale v;
          scaled = (if deltaY < 0 then vp_scale v * zoomFactor else vp_scale v / zoomFactor);
          newScale = max 0.1 (min 3 scaled);
          scaleDiff = newScale - oldScale
      in \<lparr>vp_x = vp_x v - (mouseX / oldScale) * scaleDiff / newScale,
          vp_y = vp_y v - (mouseY / oldScale) * scaleDiff / newScale,
          vp_scale = newScale\<rparr>)"

subsection \<open>Events\<close>

datatype key = CmdZ | Enter | Tab | F2 | Delete | OtherKey





section \<open>Notions used in the statements\<close>

text \<open>The node behind an id, as the application sees it now.\<close>

definition getNode :: "app \<Rightarrow> nid \<Rightarrow> node option" where
  "getNode s k = map_option (heap s) (nodesGet s k)"

text \<open>
  The content of the tree: for every entry of \<open>nodes\<close>, in order, the id with
  the text, level, parent, children and colour of its node (not the coordinates).
\<close>

definition treeContent :: "app \<Rightarrow> (nid \<times> string \<times> int \<times> nid option \<times> nid list \<times> string option) list" where
  "treeContent s = map (\<lambda>(k, r). (k, node_text (heap s r), node_level (heap s r), node_parent (heap s r),
       node_children (heap s r), node_color (heap s r))) (nodes s)"

text \<open>Two states that differ in the coordinates of the objects only.\<close>

definition coordsOnly :: "app \<Rightarrow> app \<Rightarrow> bool" where
  "coordsOnly s t \<longleftrightarrow> (\<exists>h. t = s\<lparr>heap := h\<rparr>)
     \<and> (\<forall>r. (heap t r)\<lparr>node_x := 0, node_y := 0\<rparr> = (heap s r)\<lparr>node_x := 0, node_y := 0\<rparr>)"




text \<open>The parent reference of the node behind an id, when the id is a key of \<open>nodes\<close>.\<close>

definition parentOf :: "app \<Rightarrow> nid \<Rightarrow> nid option" where
  "parentOf s k = (case getNode s k of None \<Rightarrow> None | Some nd \<Rightarrow> node_parent nd)"

text \<open>\<open>ancestor s k a\<close>: following parent references from \<open>k\<close> reaches \<open>a\<close> (in zero or more steps).\<close>

inductive ancestor :: "app \<Rightarrow> nid \<Rightarrow> nid \<Rightarrow> bool" for s :: app where
  anc_self: "ancestor s k k"
| anc_step: "parentOf s k = Some p \<Longrightarrow> ancestor s p a \<Longrightarrow> ancestor s k a"

text \<open>
  The invariants of the data model on the node map: keys and objects are
  distinct, every object carries its key as id, ids are truthy, levels are not
  negative, the children lists have no duplicates, every child listed is a node
  whose parent is the lister and whose level is one more, and every node with a
  parent is at a level other than 0 and is listed by its parent, which exists; a
  node without a parent is at level 0.
\<close>

definition wfTree :: "app \<Rightarrow> bool" where
  "wfTree s \<longleftrightarrow>
     distinct (map fst (nodes s)) \<and> distinct (map snd (nodes s)) \<and>
     (\<forall>(k, r) \<in> set (nodes s).
         node_id (heap s r) = k \<and> k \<noteq> [] \<and> 0 \<le> node_level (heap s r) \<and>
         distinct (node_children (heap s r)) \<and>
         (\<forall>c \<in> set (node_children (heap s r)).
             case getNode s c of None \<Rightarrow> False
             | Some nd \<Rightarrow> node_parent nd = Some k \<and> node_level nd = node_level (heap s r) + 1) \<and>
         (case node_parent (heap s r) of
            None \<Rightarrow> node_level (heap s r) = 0
          | Some p \<Rightarrow> node_level (heap s r) \<noteq> 0
                     \<and> (case getNode s p of None \<Rightarrow> False
                         | Some pn \<Rightarrow> k \<in> set (node_children pn))))"


text \<open>A set of ids that contains the children of its members.\<close>

definition closedDown :: "app \<Rightarrow> nid set \<Rightarrow> bool" where
  "closedDown s S \<longleftrightarrow> (\<forall>k p. parentOf s k = Some p \<longrightarrow> p \<in> S \<longrightarrow> k \<in> S)"

text \<open>A bound on the levels of the nodes in the map.\<close>

definition levelsBelow :: "int \<Rightarrow> app \<Rightarrow> bool" where
  "levelsBelow B s \<longleftrightarrow> (\<forall>(k, r) \<in> set (nodes s). node_level (heap s r) \<le> B)"


text \<open>Every listed child that is present is one level below its lister.\<close>

definition levelled :: "app \<Rightarrow> bool" where
  "levelled s \<longleftrightarrow> (\<forall>(k, r)\<in>set (nodes s). \<forall>c\<in>set (node_children (heap s r)).
      case nodesGet s c of None \<Rightarrow> True
      | Some rc \<Rightarrow> node_level (heap s rc) = node_level (heap s r) + 1)"

text \<open>
  The scenario of four nodes: a fresh application (root \<open>node-1\<close>), a child
  \<open>node-2\<close> of the root, a second child \<open>node-3\<close> of the root, and a child
  \<open>node-4\<close> of \<open>node-2\<close>, each added with the parent selected.
\<close>

definition scenario :: app where
  "scenario = addChildNode (selectNode (Some ''node-2'')
                (addChildNode (selectNode (Some ''node-1'') (addChildNode (init Missing)))))"

text \<open>The coordinates of the nodes, in the order of the map.\<close>

definition coordinates :: "app \<Rightarrow> (nid \<times> real \<times> real) list" where
  "coordinates s = map (\<lambda>(k, r). (k, node_x (heap s r), node_y (heap s r))) (nodes s)"

text \<open>The state \<open>s\<close> with every field but the map and the objects taken from \<open>z\<close>.\<close>

definition withOther :: "app \<Rightarrow> app \<Rightarrow> app" where
  "withOther z s = s\<lparr>nextRef := nextRef z, selectedNode := selectedNode z, editingNode := editingNode z,
     nodeCounter := nodeCounter z, history := history z, viewport := viewport z\<rparr>"

text \<open>
  Five nodes: the scenario with a child \<open>node-5\<close> added under \<open>node-3\<close>, so
  that both children of the root have a child.
\<close>

definition scenario5 :: app where
  "scenario5 = addChildNode (selectNode (Some ''node-3'') scenario)"

section \<open>Layout and the other fields of the state\<close>

lemma coordsOnly_refl [simp]: "coordsOnly s s"
  unfolding coordsOnly_def by (simp add: exI [of _ "heap s"])

lemma coordsOnly_trans: "coordsOnly s t \<Longrightarrow> coordsOnly t u \<Longrightarrow> coordsOnly s u"
  unfolding coordsOnly_def by auto



lemma coordsOnly_upd [simp]:
  "(\<And>nd. (f nd)\<lparr>node_x := 0, node_y := 0\<rparr> = nd\<lparr>node_x := 0, node_y := 0\<rparr>) \<Longrightarrow> coordsOnly s (upd r f s)"
  unfolding coordsOnly_def upd_def by (auto intro: exI [of _ "(heap s)(r := f (heap s r))"])

lemma coordsOnly_fold:
  "(\<And>a t. coordsOnly t (f a t)) \<Longrightarrow> coordsOnly s (fold f xs s)"
proof (induction xs arbitrary: s)
  case Nil
  show ?case by simp
next
  case (Cons a xs)
  have "coordsOnly s (f a s)" by (rule Cons.prems)
  moreover have "coordsOnly (f a s) (fold f xs (f a s))" by (rule Cons.IH) (rule Cons.prems)
  ultimately show ?case by (simp add: coordsOnly_trans)
qed


lemma coordsOnly_placeSide [simp]: "coordsOnly s (placeSide cx vs ns s)"
  unfolding placeSide_def by (rule coordsOnly_fold) (auto split: prod.splits)

lemma coordsOnly_layoutRootChildren [simp]: "coordsOnly s (layoutRootChildren r cs s)"
  unfolding layoutRootChildren_def Let_def
  by (rule coordsOnly_trans [OF coordsOnly_placeSide coordsOnly_placeSide])

lemma coordsOnly_shiftY [simp]: "coordsOnly s (shiftY d cs s)"
  unfolding shiftY_def by (rule coordsOnly_fold) simp

lemma coordsOnly_adjustForSiblingConflicts [simp]:
  "coordsOnly s (adjustForSiblingConflicts p cs sib scs s)"
  by (simp add: adjustForSiblingConflicts_def Let_def)

lemma coordsOnly_avoidIntersections [simp]: "coordsOnly s (avoidIntersections p cs s)"
  unfolding avoidIntersections_def
  by (auto split: option.splits intro!: coordsOnly_fold simp: Let_def)

lemma coordsOnly_layoutBranch [simp]: "coordsOnly s (layoutBranchChildrenNoIntersection p cs s)"
  unfolding layoutBranchChildrenNoIntersection_def Let_def
  by (rule coordsOnly_trans [OF _ coordsOnly_avoidIntersections])
     (rule coordsOnly_fold, auto split: prod.splits)


lemma coordsOnly_applyOverlapAdjustment [simp]: "coordsOnly s (applyOverlapAdjustment a b d st s)"
  by (cases st)
     (auto simp: applyOverlapAdjustment_def adjustParentChildOverlap_def adjustSiblingOverlap_def
        adjustDistantLevelOverlap_def adjustGeneralOverlap_def Let_def
        intro: coordsOnly_trans [OF coordsOnly_upd coordsOnly_upd])








section \<open>The history\<close>

lemma fold_pushHistory:
  "length h \<le> 50 \<Longrightarrow> fold pushHistory es h = drop (length h + length es - 50) (h @ es)"
proof (induction es arbitrary: h)
  case Nil
  then show ?case by simp
next
  case (Cons e es)
  have len: "length (pushHistory e h) \<le> 50"
    using Cons.prems by (simp add: pushHistory_def maxHistorySize_def Let_def)
  have "fold pushHistory (e # es) h = fold pushHistory es (pushHistory e h)" by simp
  also have "\<dots> = drop (length (pushHistory e h) + length es - 50) (pushHistory e h @ es)"
    using Cons.IH [OF len] .
  also have "\<dots> = drop (length h + length (e # es) - 50) (h @ e # es)"
  proof (cases "length h = 50")
    case True
    then have "pushHistory e h = tl (h @ [e])" by (simp add: pushHistory_def maxHistorySize_def Let_def)
    moreover have "tl (h @ [e]) @ es = drop 1 (h @ e # es)" using True by (cases h) auto
    ultimately show ?thesis using True by (simp add: drop_Suc tl_drop)
  next
    case False
    then have "pushHistory e h = h @ [e]" using Cons.prems by (simp add: pushHistory_def maxHistorySize_def Let_def)
    then show ?thesis using False Cons.prems by simp
  qed
  finally show ?case .
qed

text \<open>
  C2. \<open>saveToHistory\<close> pushes the current state with \<open>pushHistory\<close>; after any
  sequence of pushes on the empty history the stack holds the last 50 entries
  pushed, in their order (the oldest are the ones dropped), so never more than 50.
\<close>

theorem history_bound:
  "history (saveToHistory s) = pushHistory (currentState s) (history s)
   \<and> fold pushHistory es [] = drop (length es - 50) es
   \<and> length (fold pushHistory es []) \<le> 50"
proof -
  have "fold pushHistory es [] = drop (length es - 50) es"
    using fold_pushHistory [of "[]" es] by simp
  then show ?thesis by (simp add: saveToHistory_def)
qed

section \<open>Zoom\<close>

lemma wheel_scale:
  "vp_scale (wheel deltaY px py halfW halfH v) =
     max 0.1 (min 3 (if deltaY < 0 then vp_scale v * 1.05 else vp_scale v / 1.05))"
  by (simp add: wheel_def Let_def)

lemma anchor:
  fixes m p s s' v h :: real
  assumes "s \<noteq> 0" "s' \<noteq> 0" "(m + v) * s + h = p"
  shows "(m + (v - ((p - h) / s) * (s' - s) / s')) * s' + h = p"
proof -
  have "(p - h) / s = m + v" using assms by (simp add: field_simps)
  then show ?thesis using assms by (simp add: field_simps)
qed

text \<open>
  C7. For a viewport with scale in [0.1, 3], the wheel handler sets the scale to
  the old scale times or divided by 1.05, clamped to [0.1, 3], and a model point
  whose screen position was the pointer's keeps that screen position.
\<close>

theorem pointer_anchored_zoom:
  assumes "0.1 \<le> vp_scale v" and "vp_scale v \<le> 3"
  shows "vp_scale (wheel deltaY px py halfW halfH v) =
           max 0.1 (min 3 (if deltaY < 0 then vp_scale v * 1.05 else vp_scale v / 1.05))
       \<and> (screenX v halfW mx = px \<longrightarrow> screenX (wheel deltaY px py halfW halfH v) halfW mx = px)
       \<and> (screenY v halfH my = py \<longrightarrow> screenY (wheel deltaY px py halfW halfH v) halfH my = py)"
proof -
  let ?v' = "wheel deltaY px py halfW halfH v"
  have s: "vp_scale v \<noteq> 0" using assms by simp
  have s': "vp_scale ?v' \<noteq> 0" by (simp add: wheel_scale)
  have X: "vp_x ?v' = vp_x v - ((px - halfW) / vp_scale v) * (vp_scale ?v' - vp_scale v) / vp_scale ?v'"
    by (simp add: wheel_def Let_def)
  have Y: "vp_y ?v' = vp_y v - ((py - halfH) / vp_scale v) * (vp_scale ?v' - vp_scale v) / vp_scale ?v'"
    by (simp add: wheel_def Let_def)
  have "screenX ?v' halfW mx = px" if "screenX v halfW mx = px"
    unfolding screenX_def X using anchor [OF s s'] that unfolding screenX_def by blast
  moreover have "screenY ?v' halfH my = py" if "screenY v halfH my = py"
    unfolding screenY_def Y using anchor [OF s s'] that unfolding screenY_def by blast
  ultimately show ?thesis using wheel_scale by blast
qed

theorem pointer_anchored_zoom_witness:
  "(0.1::real) \<le> 1 \<and> (1::real) \<le> 3
   \<and> vp_scale (wheel (- 1) 500 300 400 300 \<lparr>vp_x = 0, vp_y = 0, vp_scale = 1\<rparr>) = 1.05
   \<and> screenX \<lparr>vp_x = 0, vp_y = 0, vp_scale = 1\<rparr> 400 100 = 500
   \<and> screenX (wheel (- 1) 500 300 400 300 \<lparr>vp_x = 0, vp_y = 0, vp_scale = 1\<rparr>) 400 100 = 500
   \<and> screenY \<lparr>vp_x = 0, vp_y = 0, vp_scale = 1\<rparr> 300 0 = 300
   \<and> screenY (wheel (- 1) 500 300 400 300 \<lparr>vp_x = 0, vp_y = 0, vp_scale = 1\<rparr>) 300 0 = 300"
proof -
  have a: "0.1 \<le> vp_scale \<lparr>vp_x = 0, vp_y = 0, vp_scale = 1\<rparr>" by simp
  have b: "vp_scale \<lparr>vp_x = 0, vp_y = 0, vp_scale = 1\<rparr> \<le> 3" by simp
  have x: "screenX \<lparr>vp_x = 0, vp_y = 0, vp_scale = 1\<rparr> 400 100 = 500" by (simp add: screenX_def)
  have y: "screenY \<lparr>vp_x = 0, vp_y = 0, vp_scale = 1\<rparr> 300 0 = 300" by (simp add: screenY_def)
  show ?thesis
    using pointer_anchored_zoom [OF a b, where deltaY = "- 1" and px = 500 and py = 300
        and halfW = 400 and halfH = 300 and mx = 100 and my = 0] x y
    by simp
qed

section \<open>Loading\<close>










section \<open>Undo\<close>

text \<open>
  C1 at a concrete input. The application starts without saved data (the root
  \<open>node-1\<close>, selected), Tab adds the child \<open>node-2\<close>, and undo follows. The
  entry pushed before the command refers to the root object itself, so after
  the command the entry shows the root with the child in its children; undo
  restores the entry's keys, and the root's children still name \<open>node-2\<close>,
  which is not a node any more. The tree before the command had no children.
\<close>

theorem undo_addChild_not_restored:
  "treeContent (init Missing) = [(''node-1'', rootText, 0, None, [], None)]
   \<and> map_option treeContent (undo 1 None (addChildNode (init Missing)))
       = Some [(''node-1'', rootText, 0, None, [''node-2''], None)]
   \<and> h_nodes (last (history (addChildNode (init Missing)))) = nodes (init Missing)
   \<and> treeContent ((addChildNode (init Missing))\<lparr>nodes := h_nodes (last (history (addChildNode (init Missing))))\<rparr>)
       = [(''node-1'', rootText, 0, None, [''node-2''], None)]"
  by code_simp

section \<open>Ids\<close>




section \<open>Trees: ancestors, removal of subtrees\<close>

lemma wfTree_iff:
  "wfTree s \<longleftrightarrow>
     distinct (map fst (nodes s)) \<and> distinct (map snd (nodes s)) \<and>
     (\<forall>(k, r) \<in> set (nodes s).
         node_id (heap s r) = k \<and> k \<noteq> [] \<and> 0 \<le> node_level (heap s r) \<and>
         distinct (node_children (heap s r)) \<and>
         (\<forall>c \<in> set (node_children (heap s r)).
             \<exists>nd. getNode s c = Some nd \<and> node_parent nd = Some k
                  \<and> node_level nd = node_level (heap s r) + 1) \<and>
         (case node_parent (heap s r) of
            None \<Rightarrow> node_level (heap s r) = 0
          | Some p \<Rightarrow> node_level (heap s r) \<noteq> 0
                     \<and> (\<exists>pn. getNode s p = Some pn \<and> k \<in> set (node_children pn))))"
proof -
  have a: "(case getNode s c of None \<Rightarrow> False
             | Some nd \<Rightarrow> node_parent nd = Some k \<and> node_level nd = l)
           \<longleftrightarrow> (\<exists>nd. getNode s c = Some nd \<and> node_parent nd = Some k \<and> node_level nd = l)" for c k l
    by (cases "getNode s c") auto
  have b: "(case getNode s p of None \<Rightarrow> False | Some pn \<Rightarrow> k \<in> set (node_children pn))
           \<longleftrightarrow> (\<exists>pn. getNode s p = Some pn \<and> k \<in> set (node_children pn))" for p k
    by (cases "getNode s p") auto
  show ?thesis unfolding wfTree_def a b ..
qed










lemma closedDown_Un: "closedDown s S \<Longrightarrow> closedDown s T \<Longrightarrow> closedDown s (S \<union> T)"
  by (auto simp: closedDown_def)

lemma closedDown_up: "ancestor s k a \<Longrightarrow> closedDown s S \<Longrightarrow> k \<notin> S \<Longrightarrow> a \<notin> S"
  by (induction rule: ancestor.induct) (auto simp: closedDown_def)












lemma ancestor_cong:
  assumes "\<And>k. parentOf s k = parentOf t k"
  shows "ancestor s k a \<Longrightarrow> ancestor t k a"
  by (induction rule: ancestor.induct) (auto intro: ancestor.intros simp: assms)






lemma saveToHistory_tree [simp]:
  "nodes (saveToHistory s) = nodes s" "heap (saveToHistory s) = heap s"
  "nextRef (saveToHistory s) = nextRef s" "nodeCounter (saveToHistory s) = nodeCounter s"
  "editingNode (saveToHistory s) = editingNode s" "viewport (saveToHistory s) = viewport s"
  "selectedNode (saveToHistory s) = selectedNode s"
  "history (saveToHistory s) = pushHistory (currentState s) (history s)"
  by (simp_all add: saveToHistory_def)

lemma getNode_saveToHistory [simp]: "getNode (saveToHistory s) k = getNode s k"
  by (simp add: getNode_def nodesGet_def)

lemma nodesGet_saveToHistory [simp]: "nodesGet (saveToHistory s) k = nodesGet s k"
  by (simp add: nodesGet_def)

lemma parentOf_saveToHistory [simp]: "parentOf (saveToHistory s) k = parentOf s k"
  by (simp add: parentOf_def)

lemma ancestor_saveToHistory [simp]: "ancestor (saveToHistory s) k a = ancestor s k a"
  using ancestor_cong [of "saveToHistory s" s k a] ancestor_cong [of s "saveToHistory s" k a] by auto

lemma wfTree_saveToHistory [simp]: "wfTree (saveToHistory s) = wfTree s"
  by (simp add: wfTree_iff cong: option.case_cong)

lemma levelsBelow_saveToHistory [simp]: "levelsBelow B (saveToHistory s) = levelsBelow B s"
  by (simp add: levelsBelow_def)








lemma entry_unique_ref:
  "distinct (map snd al) \<Longrightarrow> (k, r) \<in> set al \<Longrightarrow> (k', r) \<in> set al \<Longrightarrow> k = k'"
  by (induction al) (auto simp: rev_image_eqI)













lemma wfTree_levelled: "wfTree s \<Longrightarrow> levelled s"
  unfolding levelled_def wfTree_def
  by (fastforce simp: getNode_def split: option.splits)





section \<open>Evaluating concrete states\<close>

lemma decimal_small:
  "decimal (Suc 0) = ''1''" "decimal (Suc (Suc 0)) = ''2''" "decimal (Suc (Suc (Suc 0))) = ''3''"
  "decimal (Suc (Suc (Suc (Suc 0)))) = ''4''" "decimal (Suc (Suc (Suc (Suc (Suc 0))))) = ''5''"
  by code_simp+

lemmas cmd_defs = init_def loadFromDatabase_def constructed_def createRootNode_def generateId_def
  newObject_def selectNode_def Let_def emptyNode_def addChildNode_def addSiblingNode_def
  saveToHistory_def pushHistory_def currentState_def maxHistorySize_def nodesGet_def upd_def
  decimal_small changeNodeColor_def undo_def getNode_def treeContent_def

lemmas layout_defs = updateLayout_def presentNodes_def List.map_filter_simps layoutRootChildren_def
  placeSide_def rightNodes_def leftNodes_def layoutBranchChildrenNoIntersection_def
  calculateRequiredSpace_def siblingsOf_def avoidIntersections_def adjustForSiblingConflicts_def
  shiftY_def performComprehensiveOverlapResolution_def getActualNodeDimensions_def
  resolveOverlapsByLevel_def resolveOverlapsInLevel_def resolveGlobalOverlaps_def nodesByLevel_def
  pairStep_def resolveNodePairOverlap_def overlapping_def applyOverlapAdjustment_def
  determineAdjustmentStrategy_def adjustParentChildOverlap_def adjustSiblingOverlap_def
  adjustDistantLevelOverlap_def adjustGeneralOverlap_def eval_nat_numeral



section \<open>Deleting a subtree\<close>





section \<open>Ids across events\<close>













section \<open>The layout as a function of the node map\<close>

lemma withOther_tree [simp]: "heap (withOther z s) = heap s" "nodes (withOther z s) = nodes s"
  by (simp_all add: withOther_def)

lemma withOther_reads [simp]:
  "nodesGet (withOther z s) = nodesGet s" "nodesGetOpt (withOther z s) = nodesGetOpt s"
  "presentNodes (withOther z s) = presentNodes s" "siblingsOf (withOther z s) = siblingsOf s"
  "calculateRequiredSpace (withOther z s) = calculateRequiredSpace s"
  "overlapping d (withOther z s) = overlapping d s"
  "determineAdjustmentStrategy (withOther z s) = determineAdjustmentStrategy s"
  "nodesByLevel (withOther z s) = nodesByLevel s"
proof -
  show a: "nodesGet (withOther z s) = nodesGet s" by (rule ext) (simp only: nodesGet_def withOther_tree)
  show b: "nodesGetOpt (withOther z s) = nodesGetOpt s"
  proof (rule ext)
    fix k show "nodesGetOpt (withOther z s) k = nodesGetOpt s k" by (cases k) (simp_all add: a)
  qed
  show c: "presentNodes (withOther z s) = presentNodes s"
    by (rule ext) (simp only: presentNodes_def a)
  show d: "siblingsOf (withOther z s) = siblingsOf s"
    by (intro ext) (simp only: siblingsOf_def c withOther_tree)
  show "calculateRequiredSpace (withOther z s) = calculateRequiredSpace s"
    by (intro ext) (simp only: calculateRequiredSpace_def b d withOther_tree)
  show "overlapping d (withOther z s) = overlapping d s"
    by (intro ext) (simp only: overlapping_def withOther_tree)
  show "determineAdjustmentStrategy (withOther z s) = determineAdjustmentStrategy s"
    by (intro ext) (simp only: determineAdjustmentStrategy_def withOther_tree)
  show "nodesByLevel (withOther z s) = nodesByLevel s"
    by (simp only: nodesByLevel_def withOther_tree)
qed

lemma withOther_upd [simp]: "upd r f (withOther z s) = withOther z (upd r f s)"
  by (simp add: upd_def withOther_def)

lemma withOther_fold:
  "(\<And>a t. F a (withOther z t) = withOther z (F a t)) \<Longrightarrow> fold F xs (withOther z s) = withOther z (fold F xs s)"
  by (induction xs arbitrary: s) simp_all

lemma withOther_forEach:
  "(\<And>a t. F a (withOther z t) = map_option (withOther z) (F a t))
   \<Longrightarrow> forEach F xs (withOther z s) = map_option (withOther z) (forEach F xs s)"
  by (induction xs arbitrary: s) (auto split: option.splits)

lemma withOther_placeSide [simp]: "placeSide cx vs ns (withOther z s) = withOther z (placeSide cx vs ns s)"
  unfolding placeSide_def by (rule withOther_fold) (simp split: prod.splits)

lemma withOther_layoutRootChildren [simp]:
  "layoutRootChildren p cs (withOther z s) = withOther z (layoutRootChildren p cs s)"
  by (simp add: layoutRootChildren_def Let_def)

lemma withOther_shiftY [simp]: "shiftY d cs (withOther z s) = withOther z (shiftY d cs s)"
  unfolding shiftY_def by (rule withOther_fold) simp

lemma withOther_adjustForSiblingConflicts [simp]:
  "adjustForSiblingConflicts p cs sib scs (withOther z s) = withOther z (adjustForSiblingConflicts p cs sib scs s)"
  by (simp add: adjustForSiblingConflicts_def Let_def)

lemma withOther_avoidIntersections [simp]:
  "avoidIntersections p cs (withOther z s) = withOther z (avoidIntersections p cs s)"
proof -
  have "fold (\<lambda>sibling t.
                    (let siblingChildren = presentNodes t (node_children (heap t sibling))
                     in if siblingChildren = [] then t
                        else adjustForSiblingConflicts p cs sibling siblingChildren t)) xs (withOther z s)
        = withOther z (fold (\<lambda>sibling t.
                    (let siblingChildren = presentNodes t (node_children (heap t sibling))
                     in if siblingChildren = [] then t
                        else adjustForSiblingConflicts p cs sibling siblingChildren t)) xs s)" for xs
    by (rule withOther_fold) (simp add: Let_def)
  then show ?thesis by (simp add: avoidIntersections_def split: option.splits)
qed

lemma withOther_layoutBranch [simp]:
  "layoutBranchChildrenNoIntersection p cs (withOther z s) = withOther z (layoutBranchChildrenNoIntersection p cs s)"
  unfolding layoutBranchChildrenNoIntersection_def Let_def withOther_tree withOther_reads
  by (subst withOther_fold) (simp_all split: prod.splits)

lemma withOther_layoutChildren:
  "layoutChildrenMindMeisterStyle fuel p (withOther z s)
     = map_option (withOther z) (layoutChildrenMindMeisterStyle fuel p s)"
proof (induction fuel arbitrary: p s)
  case 0
  show ?case by simp
next
  case (Suc fuel)
  have fe: "forEach (layoutChildrenMindMeisterStyle fuel) xs (withOther z t)
        = map_option (withOther z) (forEach (layoutChildrenMindMeisterStyle fuel) xs t)" for xs t
    by (rule withOther_forEach) (rule Suc.IH)
  show ?case by (simp add: Let_def fe)
qed

lemma withOther_applyOverlapAdjustment [simp]:
  "applyOverlapAdjustment a b d st (withOther z s) = withOther z (applyOverlapAdjustment a b d st s)"
  by (cases st)
     (simp_all add: applyOverlapAdjustment_def adjustParentChildOverlap_def adjustSiblingOverlap_def
        adjustDistantLevelOverlap_def adjustGeneralOverlap_def Let_def)

lemma withOther_pairStep:
  "pairStep d a b (x, withOther z s) = map_prod id (withOther z) (pairStep d a b (x, s))"
  by (simp add: pairStep_def resolveNodePairOverlap_def)

lemma withOther_fold_pairStep:
  "fold (pairStep d a) bs (x, withOther z s) = map_prod id (withOther z) (fold (pairStep d a) bs (x, s))"
proof (induction bs arbitrary: x s)
  case Nil
  show ?case by simp
next
  case (Cons b bs)
  obtain y t where p: "pairStep d a b (x, s) = (y, t)" by (cases "pairStep d a b (x, s)")
  show ?case using Cons.IH [of y t] p by (simp add: withOther_pairStep)
qed

lemma withOther_pairPass:
  "pairPass d ns (x, withOther z s) = map_prod id (withOther z) (pairPass d ns (x, s))"
proof (induction ns arbitrary: x s)
  case Nil
  show ?case by simp
next
  case (Cons a ns)
  obtain y t where p: "fold (pairStep d a) ns (x, s) = (y, t)" by (cases "fold (pairStep d a) ns (x, s)")
  show ?case using Cons.IH [of y t] p by (simp add: withOther_fold_pairStep)
qed

lemma withOther_resolveLoop [simp]:
  "resolveLoop k d ns (withOther z s) = withOther z (resolveLoop k d ns s)"
proof (induction k arbitrary: s)
  case 0
  show ?case by simp
next
  case (Suc k)
  obtain y t where p: "pairPass d ns (False, s) = (y, t)" by (cases "pairPass d ns (False, s)")
  show ?case using Suc.IH [of t] p by (simp add: withOther_pairPass)
qed

lemma withOther_resolveOverlapsByLevel [simp]:
  "resolveOverlapsByLevel d (withOther z s) = withOther z (resolveOverlapsByLevel d s)"
proof -
  have "fold (\<lambda>(level, levelNodes) t. if length levelNodes > 1 then resolveOverlapsInLevel levelNodes d t else t)
          xs (withOther z s)
        = withOther z (fold (\<lambda>(level, levelNodes) t. if length levelNodes > 1 then resolveOverlapsInLevel levelNodes d t else t)
          xs s)" for xs
    by (rule withOther_fold) (simp add: resolveOverlapsInLevel_def split: prod.splits)
  then show ?thesis by (simp add: resolveOverlapsByLevel_def)
qed

lemma withOther_performComprehensive [simp]:
  "performComprehensiveOverlapResolution rect (withOther z s)
     = withOther z (performComprehensiveOverlapResolution rect s)"
  by (simp add: performComprehensiveOverlapResolution_def resolveGlobalOverlaps_def Let_def)

lemma withOther_updateLayout:
  "updateLayout fuel rect (withOther z s) = map_option (withOther z) (updateLayout fuel rect s)"
  by (simp add: updateLayout_def withOther_layoutChildren split: option.splits)

lemma withOther_same: "nodes s' = nodes s \<Longrightarrow> heap s' = heap s \<Longrightarrow> withOther s' s = s'"
  by (simp add: withOther_def)

lemma coordinates_withOther [simp]: "coordinates (withOther z s) = coordinates s"
  by (simp add: coordinates_def)

text \<open>
  C6, as the code has it. The coordinates that \<open>updateLayout\<close> produces are a
  function of the node map (its entries in order and the objects they refer to,
  stored coordinates included) and of the measured rectangle: two states with
  the same map and objects get the same coordinates, whatever their selection,
  history, counter and viewport.
\<close>

theorem layout_function_of_node_map:
  assumes "nodes s' = nodes s" and "heap s' = heap s"
  shows "map_option coordinates (updateLayout fuel rect s') = map_option coordinates (updateLayout fuel rect s)"
proof -
  have "updateLayout fuel rect s' = updateLayout fuel rect (withOther s' s)"
    using withOther_same [OF assms] by simp
  also have "\<dots> = map_option (withOther s') (updateLayout fuel rect s)" by (rule withOther_updateLayout)
  finally show ?thesis by (simp add: option.map_comp comp_def)
qed

theorem layout_function_of_node_map_witness:
  "nodes (scenario\<lparr>history := [], selectedNode := None\<rparr>) = nodes scenario
   \<and> heap (scenario\<lparr>history := [], selectedNode := None\<rparr>) = heap scenario
   \<and> map_option coordinates (updateLayout 3 None (scenario\<lparr>history := [], selectedNode := None\<rparr>))
        = map_option coordinates (updateLayout 3 None scenario)"
proof -
  have a: "nodes (scenario\<lparr>history := [], selectedNode := None\<rparr>) = nodes scenario" by simp
  have b: "heap (scenario\<lparr>history := [], selectedNode := None\<rparr>) = heap scenario" by simp
  show ?thesis using a b layout_function_of_node_map [OF a b, of 3 None] by (intro conjI)
qed

text \<open>
  C6, as stated, fails: the coordinates also depend on the coordinates stored
  before the run. On the five nodes \<open>updateLayout\<close> places \<open>node-4\<close> and
  \<open>node-5\<close> at y = 40 and y = 60 (\<open>avoidIntersections\<close> reads the y of the
  sibling's child before that child is placed); a second run on the result, the
  same tree in the same order with the same measured rectangle, places them at
  y = 70 and y = 75.
\<close>

theorem layout_twice_counterexample:
  "map_option coordinates (updateLayout 3 None scenario5)
     = Some [(''node-1'', 0, 0), (''node-2'', 320, 0), (''node-3'', - 320, 0),
             (''node-4'', 600, 40), (''node-5'', - 600, 60)]
   \<and> map_option coordinates
        (case updateLayout 3 None scenario5 of None \<Rightarrow> None | Some t \<Rightarrow> updateLayout 3 None t)
     = Some [(''node-1'', 0, 0), (''node-2'', 320, 0), (''node-3'', - 320, 0),
             (''node-4'', 600, 70), (''node-5'', - 600, 75)]
   \<and> map_option treeContent (updateLayout 3 None scenario5) = Some (treeContent scenario5)"
  by (simp add: scenario5_def scenario_def cmd_defs layout_defs coordinates_def)

end
